theory Spec2Isabelle
  imports
    Complex_Main
    "HOL-Library.Sublist"
    "HOL-Library.Char_ord"
    "HOL-Library.List_Lexorder"
begin

section \<open>Attribute cells and strings\<close>

text \<open>
  A cell of an attribute column of the loaded table (\<^verbatim>\<open>gdf\<close> in \<^verbatim>\<open>app.py\<close>): a text value,
  Python's \<^verbatim>\<open>None\<close>, or the floating-point not-a-number that pandas uses for a missing
  value. \<open>str\<close> is Python's \<^verbatim>\<open>str(v)\<close> on such a cell.
\<close>

datatype cell = PyNone | NaN | Str string

fun str :: "cell \<Rightarrow> string" where
  "str PyNone = ''None''"
| "str NaN = ''nan''"
| "str (Str s) = s"

text \<open>
  The guard \<^verbatim>\<open>v is not None and str(v) != "nan"\<close> that the script writes in every
  comprehension over a column (lines 110, 126, 128, 151 and 231).
\<close>

definition not_missing :: "cell \<Rightarrow> bool" where
  "not_missing v = (v \<noteq> PyNone \<and> str v \<noteq> ''nan'')"

text \<open>Python's \<^verbatim>\<open>s.startswith(p)\<close> and \<^verbatim>\<open>p in s\<close> on strings, by recursion on \<open>s\<close>.\<close>

fun startswith :: "string \<Rightarrow> string \<Rightarrow> bool" where
  "startswith s [] = True"
| "startswith [] (p # ps) = False"
| "startswith (c # cs) (p # ps) = (c = p \<and> startswith cs ps)"

fun py_in :: "string \<Rightarrow> string \<Rightarrow> bool" where
  "py_in p [] = (p = [])"
| "py_in p (c # cs) = (startswith (c # cs) p \<or> py_in p cs)"

text \<open>Python's \<^verbatim>\<open>s.endswith(suf)\<close>.\<close>

definition endswith :: "string \<Rightarrow> string \<Rightarrow> bool" where
  "endswith s suf = (length suf \<le> length s \<and> drop (length s - length suf) s = suf)"

section \<open>Colour classification\<close>

text \<open>
  Lines 153--159: the colour the legend gives to one value of the selected category.
\<close>

definition legend_color :: "cell \<Rightarrow> string" where
  "legend_color v =
     (if py_in ''Highly Suitable'' (str v) then ''#4dff4d''
      else if py_in ''Moderately Suitable'' (str v) then ''#ffeb3b''
      else ''#808080'')"

text \<open>
  Lines 194--206: the style of one feature of the map layer. A feature's properties are a
  dictionary from column names to cells.
\<close>

record style =
  fillColor :: string
  color :: string
  weight :: nat
  fillOpacity :: real

definition mk_style :: "string \<Rightarrow> style" where
  "mk_style c = \<lparr>fillColor = c, color = ''black'', weight = 1, fillOpacity = 7 / 10\<rparr>"

definition style_function :: "string \<Rightarrow> (string \<rightharpoonup> cell) \<Rightarrow> style" where
  "style_function selected_category properties =
     (case properties selected_category of
        None \<Rightarrow> mk_style ''#808080''
      | Some PyNone \<Rightarrow> mk_style ''#808080''
      | Some v \<Rightarrow>
          (let category_value = str v in
           if py_in ''Highly Suitable'' category_value then mk_style ''#4dff4d''
           else if py_in ''Moderately Suitable'' category_value then mk_style ''#ffeb3b''
           else mk_style ''#808080''))"

section \<open>The table\<close>

text \<open>
  The geo-data frame that \<^verbatim>\<open>gpd.read_file\<close> returns: the names of its columns and its
  rows, each row giving a cell for a column name and carrying a geometry. The geometry is
  opaque (\<open>'g\<close>): the script only hands it to the geometry library. A row's cell is read
  only for columns of the frame.
\<close>

datatype error =
    KeyError string
  | IndexError
  | ValueError string
  | AssertionError string
  | OSError string
  | LibraryError string

record 'g row =
  attrs :: "string \<Rightarrow> cell"
  geometry :: 'g

record 'g frame =
  columns :: "string list"
  rows :: "'g row list"

text \<open>
  \<^verbatim>\<open>df[c]\<close>: the cells of a column, row by row; a \<^verbatim>\<open>KeyError\<close> when the frame has no
  such column. Where the script reads a column under the guard \<^verbatim>\<open>c in df.columns\<close> of the
  same frame, the model reads \<open>cells\<close> under the same guard.
\<close>

definition cells :: "'g frame \<Rightarrow> string \<Rightarrow> cell list" where
  "cells df c = map (\<lambda>r. attrs r c) (rows df)"

definition column :: "'g frame \<Rightarrow> string \<Rightarrow> error + cell list" where
  "column df c = (if c \<in> set (columns df) then Inr (cells df c) else Inl (KeyError c))"

text \<open>
  \<^verbatim>\<open>df[df[c] == s]\<close>: the rows whose cell in column \<open>c\<close> equals the string \<open>s\<close>, in their
  order. \<^verbatim>\<open>None\<close> and not-a-number equal no string.
\<close>

definition select_eq :: "'g frame \<Rightarrow> string \<Rightarrow> string \<Rightarrow> error + 'g frame" where
  "select_eq df c s =
     (case column df c of
        Inl e \<Rightarrow> Inl e
      | Inr _ \<Rightarrow> Inr (df\<lparr>rows := filter (\<lambda>r. attrs r c = Str s) (rows df)\<rparr>))"

text \<open>\<^verbatim>\<open>df.empty\<close>: some axis of the frame has length zero.\<close>

definition df_empty :: "'g frame \<Rightarrow> bool" where
  "df_empty df = (rows df = [] \<or> columns df = [])"

text \<open>\<^verbatim>\<open>Series.unique()\<close>: the distinct values in the order of their first appearance.\<close>

fun unique_from :: "'a list \<Rightarrow> 'a list \<Rightarrow> 'a list" where
  "unique_from seen [] = []"
| "unique_from seen (x # xs) =
     (if x \<in> set seen then unique_from seen xs else x # unique_from (x # seen) xs)"

definition unique :: "'a list \<Rightarrow> 'a list" where
  "unique xs = unique_from [] xs"

text \<open>
  The comprehension \<^verbatim>\<open>[str(v) for v in series.unique() if v is not None and str(v) != "nan"]\<close>
  of lines 110, 126 and 128.
\<close>

definition valid_names :: "cell list \<Rightarrow> string list" where
  "valid_names series = map str (filter not_missing (unique series))"

section \<open>Selection controls and the region filter\<close>

text \<open>Lines 108--111: the options of the state selector.\<close>

definition states :: "'g frame \<Rightarrow> string list" where
  "states gdf =
     ''All States'' #
       (if ''NAME_1'' \<in> set (columns gdf) then sort (valid_names (cells gdf ''NAME_1''))
        else [])"

text \<open>Lines 116--119: the filter by state.\<close>

definition state_filter :: "'g frame \<Rightarrow> string \<Rightarrow> error + 'g frame" where
  "state_filter gdf selected_state =
     (if selected_state \<noteq> ''All States'' then select_eq gdf ''NAME_1'' selected_state
      else Inr gdf)"

text \<open>
  Lines 123--129: the options of the district selector. The guard looks at the columns of
  \<open>gdf\<close>; the names are read from \<open>filtered_gdf\<close> when a state is selected.
\<close>

definition districts :: "'g frame \<Rightarrow> 'g frame \<Rightarrow> string \<Rightarrow> error + string list" where
  "districts gdf filtered_gdf selected_state =
     (if ''NAME_2'' \<in> set (columns gdf) then
        (case column (if selected_state \<noteq> ''All States'' then filtered_gdf else gdf) ''NAME_2'' of
           Inl e \<Rightarrow> Inl e
         | Inr series \<Rightarrow> Inr (''All Districts'' # sort (valid_names series)))
      else Inr [''All Districts''])"

text \<open>Lines 134--135: the filter by district, on the frame already filtered by state.\<close>

definition district_filter :: "'g frame \<Rightarrow> string \<Rightarrow> error + 'g frame" where
  "district_filter filtered_gdf selected_district =
     (if selected_district \<noteq> ''All Districts''
      then select_eq filtered_gdf ''NAME_2'' selected_district
      else Inr filtered_gdf)"

text \<open>The two filters in the order of the script.\<close>

definition region_filter :: "'g frame \<Rightarrow> string \<Rightarrow> string \<Rightarrow> error + 'g frame" where
  "region_filter gdf selected_state selected_district =
     (case state_filter gdf selected_state of
        Inl e \<Rightarrow> Inl e
      | Inr filtered_gdf \<Rightarrow> district_filter filtered_gdf selected_district)"

text \<open>The district options as the script reaches them: after the filter by state.\<close>

definition district_options :: "'g frame \<Rightarrow> string \<Rightarrow> error + string list" where
  "district_options gdf selected_state =
     (case state_filter gdf selected_state of
        Inl e \<Rightarrow> Inl e
      | Inr filtered_gdf \<Rightarrow> districts gdf filtered_gdf selected_state)"

text \<open>Lines 91--96: the category columns and their display names, in the dictionary's order.\<close>

definition categories :: "(string \<times> string) list" where
  "categories =
     [(''Adaptation'', ''Adaptation''),
      (''Mitigation'', ''Mitigation''),
      (''Replacment'', ''Replacement''),
      (''General_SI'', ''General SI'')]"

section \<open>What the page shows\<close>

text \<open>
  A floating-point value is the real number it denotes, or not-a-number. Comparing a float
  with the integers 3 and 1 is exact, and false for not-a-number. Arithmetic on floats
  rounds, so it is not computed here: the subtraction and the mean that the script calls
  are parameters (below).
\<close>

datatype pyfloat = Fin real | FNaN

fun fgt :: "pyfloat \<Rightarrow> real \<Rightarrow> bool" where
  "fgt (Fin a) c = (a > c)"
| "fgt FNaN c = False"

fun flt :: "pyfloat \<Rightarrow> real \<Rightarrow> bool" where
  "flt (Fin a) c = (a < c)"
| "flt FNaN c = False"

text \<open>
  The map handed to the renderer: centre, zoom, the style of each feature of the layer, the
  property keys the features carry (the columns of the frame given to \<^verbatim>\<open>folium.GeoJson\<close>),
  and the tooltip's fields and aliases. Then the elements the script puts on the page.
\<close>

record map_view =
  location :: "pyfloat \<times> pyfloat"
  zoom_start :: nat
  styles :: "style list"
  layer_keys :: "string list"
  tooltip_fields :: "string list"
  tooltip_aliases :: "string list"

datatype ui =
    Header string
  | Subheader string
  | Selectbox "string list"
  | Legend_entry string string
  | Folium_map map_view
  | Write string
  | Warning string

text \<open>
  What is not part of this repository is a parameter: the centroids \<open>(x, y)\<close> of a geometry
  column (\<^verbatim>\<open>.geometry.centroid\<close>), the mean of a series of floats (\<^verbatim>\<open>.mean()\<close>), the total
  bounds \<open>(minx, miny, maxx, maxy)\<close> of a geometry column, the subtraction of two floats as
  the interpreter rounds it, and the rendering of a map (\<^verbatim>\<open>folium.Map\<close>, the \<^verbatim>\<open>GeoJson\<close>
  layer with its tooltip, and \<^verbatim>\<open>folium_static\<close> together). The library calls may raise;
  the subtraction does not.
\<close>

record 'g library =
  centroid :: "'g list \<Rightarrow> error + (pyfloat \<times> pyfloat) list"
  series_mean :: "pyfloat list \<Rightarrow> error + pyfloat"
  total_bounds :: "'g list \<Rightarrow> error + (pyfloat \<times> pyfloat \<times> pyfloat \<times> pyfloat)"
  float_sub :: "pyfloat \<Rightarrow> pyfloat \<Rightarrow> pyfloat"
  render :: "map_view \<Rightarrow> error + unit"

subsection \<open>Legend\<close>

text \<open>Lines 150--164: one entry, colour and label, for each distinct value present.\<close>

definition legend :: "'g frame \<Rightarrow> string \<Rightarrow> ui list" where
  "legend filtered_gdf selected_category =
     (if selected_category \<in> set (columns filtered_gdf) then
        map (\<lambda>value. Legend_entry (legend_color value) (str value))
          (filter not_missing (unique (cells filtered_gdf selected_category)))
      else [])"

subsection \<open>Map\<close>

text \<open>
  Lines 173--179: the centre. The mean of the \<open>y\<close> coordinates is taken first, then that of
  the \<open>x\<close> coordinates; whatever raises inside the \<^verbatim>\<open>try\<close> block is caught by the bare
  \<^verbatim>\<open>except\<close>, which sets the default centre.
\<close>

definition default_center :: "pyfloat \<times> pyfloat" where
  "default_center = (Fin (205937 / 10000), Fin (789629 / 10000))"

definition center :: "'g library \<Rightarrow> 'g frame \<Rightarrow> pyfloat \<times> pyfloat" where
  "center lib filtered_gdf =
     (case centroid lib (map geometry (rows filtered_gdf)) of
        Inl _ \<Rightarrow> default_center
      | Inr points \<Rightarrow>
          (case series_mean lib (map snd points) of
             Inl _ \<Rightarrow> default_center
           | Inr center_y \<Rightarrow>
               (case series_mean lib (map fst points) of
                  Inl _ \<Rightarrow> default_center
                | Inr center_x \<Rightarrow> (center_y, center_x))))"

text \<open>Lines 185--189: the zoom level from the two spans.\<close>

definition zoom_level :: "pyfloat \<Rightarrow> pyfloat \<Rightarrow> nat" where
  "zoom_level lat_diff lon_diff =
     (let zoom = 7 in
      if fgt lat_diff 3 \<or> fgt lon_diff 3 then 6
      else if flt lat_diff 1 \<or> flt lon_diff 1 then 9
      else zoom)"

text \<open>
  Lines 182--189: the bounds are computed outside the \<^verbatim>\<open>try\<close> block; the two spans are
  float differences.
\<close>

definition zoom_of :: "'g library \<Rightarrow> 'g frame \<Rightarrow> error + nat" where
  "zoom_of lib filtered_gdf =
     (case total_bounds lib (map geometry (rows filtered_gdf)) of
        Inl e \<Rightarrow> Inl e
      | Inr (b0, b1, b2, b3) \<Rightarrow>
          (let lat_diff = float_sub lib b3 b1; lon_diff = float_sub lib b2 b0
           in Inr (zoom_level lat_diff lon_diff)))"

text \<open>The properties of the feature made from a row: its cells under the frame's columns.\<close>

definition properties :: "'g frame \<Rightarrow> 'g row \<Rightarrow> (string \<rightharpoonup> cell)" where
  "properties df r = (\<lambda>c. if c \<in> set (columns df) then Some (attrs r c) else None)"

text \<open>Lines 171--220: centre, zoom, styled layer with its tooltip, and the rendering.\<close>

definition compose :: "'g library \<Rightarrow> 'g frame \<Rightarrow> string \<Rightarrow> error + ui list" where
  "compose lib filtered_gdf selected_category =
     (let c = center lib filtered_gdf in
      case zoom_of lib filtered_gdf of
        Inl e \<Rightarrow> Inl e
      | Inr z \<Rightarrow>
          (case map_of categories selected_category of
             None \<Rightarrow> Inl (KeyError selected_category)
           | Some display_name \<Rightarrow>
               (let m = \<lparr>location = c, zoom_start = z,
                         styles = map (\<lambda>r. style_function selected_category
                                               (properties filtered_gdf r)) (rows filtered_gdf),
                         layer_keys = columns filtered_gdf,
                         tooltip_fields =
                           (if ''NAME_2'' \<in> set (columns filtered_gdf)
                            then [''NAME_2'', selected_category]
                            else [''OBJECTID'', selected_category]),
                         tooltip_aliases =
                           (if ''NAME_2'' \<in> set (columns filtered_gdf)
                            then [''District'', display_name]
                            else [''ID'', display_name])\<rparr>
                in case render lib m of
                     Inl e \<Rightarrow> Inl e
                   | Inr _ \<Rightarrow> Inr [Folium_map m])))"

subsection \<open>District details\<close>

text \<open>Lines 228--232: the lines written for one record.\<close>

definition detail_lines :: "string list \<Rightarrow> (string \<Rightarrow> cell) \<Rightarrow> ui list" where
  "detail_lines cols district_data =
     concat (map (\<lambda>(category, display_name).
                    if category \<in> set cols then
                      (let value = district_data category in
                       if not_missing value
                       then [Write (''**'' @ display_name @ '':** '' @ str value)]
                       else [])
                    else [])
                 categories)"

text \<open>Lines 223--232: the panel; \<^verbatim>\<open>iloc[0]\<close> raises when there is no row.\<close>

definition detail_panel :: "'g frame \<Rightarrow> string \<Rightarrow> error + ui list" where
  "detail_panel filtered_gdf selected_district =
     (if selected_district \<noteq> ''All Districts'' then
        (case rows filtered_gdf of
           [] \<Rightarrow> Inl IndexError
         | r # _ \<Rightarrow>
             Inr (Subheader (''Details for '' @ selected_district) #
                  detail_lines (columns filtered_gdf) (attrs r)))
      else Inr [])"

subsection \<open>The two columns of the page\<close>

text \<open>Lines 103--164: the controls column; it also yields the filtered frame.\<close>

definition controls ::
  "'g frame \<Rightarrow> string \<Rightarrow> string \<Rightarrow> string \<Rightarrow> error + (ui list \<times> 'g frame)" where
  "controls gdf selected_state selected_district selected_category =
     (case state_filter gdf selected_state of
        Inl e \<Rightarrow> Inl e
      | Inr by_state \<Rightarrow>
          (case districts gdf by_state selected_state of
             Inl e \<Rightarrow> Inl e
           | Inr ds \<Rightarrow>
               (case district_filter by_state selected_district of
                  Inl e \<Rightarrow> Inl e
                | Inr filtered_gdf \<Rightarrow>
                    Inr ([Header ''Selection Controls'',
                          Subheader ''Select State:'', Selectbox (states gdf),
                          Subheader ''Select District:'', Selectbox ds,
                          Subheader ''Select Category:'', Selectbox (map fst categories),
                          Header ''Legend'']
                         @ legend filtered_gdf selected_category,
                         filtered_gdf))))"

text \<open>Lines 167--234: the map column.\<close>

definition map_column :: "'g library \<Rightarrow> 'g frame \<Rightarrow> string \<Rightarrow> string \<Rightarrow> error + ui list" where
  "map_column lib filtered_gdf selected_district selected_category =
     (if \<not> df_empty filtered_gdf then
        (case compose lib filtered_gdf selected_category of
           Inl e \<Rightarrow> Inl e
         | Inr shown \<Rightarrow>
             (case detail_panel filtered_gdf selected_district of
                Inl e \<Rightarrow> Inl e
              | Inr details \<Rightarrow> Inr (Header ''Solar Suitability Map'' # shown @ details)))
      else Inr [Header ''Solar Suitability Map'',
                Warning ''No data available for the selected filters.''])"

text \<open>Lines 98--234: the body of the outer \<^verbatim>\<open>try\<close>, after the table is loaded.\<close>

definition page ::
  "'g library \<Rightarrow> 'g frame \<Rightarrow> string \<Rightarrow> string \<Rightarrow> string \<Rightarrow> error + ui list" where
  "page lib gdf selected_state selected_district selected_category =
     (case controls gdf selected_state selected_district selected_category of
        Inl e \<Rightarrow> Inl e
      | Inr (shown, filtered_gdf) \<Rightarrow>
          (case map_column lib filtered_gdf selected_district selected_category of
             Inl e \<Rightarrow> Inl e
           | Inr rest \<Rightarrow> Inr (shown @ rest)))"

section \<open>Locating the dataset\<close>

text \<open>
  What \<^verbatim>\<open>find_shapefile\<close> observes of the file system: which paths exist
  (\<^verbatim>\<open>os.path.exists\<close> answers for every path and never raises), the working directory, and
  the listing of the working directory in the order \<^verbatim>\<open>os.listdir\<close> gives it. The last two
  calls raise an \<^verbatim>\<open>OSError\<close> when the working directory is gone or may not be read.
\<close>

record filesystem =
  path_exists :: "string \<Rightarrow> bool"
  getcwd :: "error + string"
  listdir :: "error + string list"

text \<open>\<^verbatim>\<open>os.path.dirname\<close> and \<^verbatim>\<open>os.path.join\<close> of two parts, as \<^verbatim>\<open>posixpath\<close> defines them.\<close>

definition dirname :: "string \<Rightarrow> string" where
  "dirname p =
     (let head = rev (dropWhile (\<lambda>c. c \<noteq> CHR ''/'') (rev p)) in
      if head \<noteq> [] \<and> \<not> list_all (\<lambda>c. c = CHR ''/'') head
      then rev (dropWhile (\<lambda>c. c = CHR ''/'') (rev head))
      else head)"

definition join :: "string \<Rightarrow> string \<Rightarrow> string" where
  "join a b =
     (if startswith b ''/'' then b
      else if a = [] \<or> endswith a ''/'' then a @ b
      else a @ ''/'' @ b)"

text \<open>Lines 75--77: the loop over the listing returns at the first name ending in \<^verbatim>\<open>.shp\<close>.\<close>

fun first_shp :: "string list \<Rightarrow> string option" where
  "first_shp [] = None"
| "first_shp (file # files) = (if endswith file ''.shp'' then Some file else first_shp files)"

text \<open>
  Lines 63--80. \<^verbatim>\<open>os.getcwd()\<close> is called only when the first test misses, and
  \<^verbatim>\<open>os.listdir('.')\<close> only when the second misses too; the function has no handler.
\<close>

definition find_shapefile :: "filesystem \<Rightarrow> string \<Rightarrow> error + string" where
  "find_shapefile fs base_name =
     (if path_exists fs (base_name @ ''.shp'') then Inr (base_name @ ''.shp'')
      else
        (case getcwd fs of
           Inl e \<Rightarrow> Inl e
         | Inr cwd \<Rightarrow>
             (let parent_dir = dirname cwd in
              if path_exists fs (join parent_dir (base_name @ ''.shp''))
              then Inr (join parent_dir (base_name @ ''.shp''))
              else
                (case listdir fs of
                   Inl e \<Rightarrow> Inl e
                 | Inr files \<Rightarrow>
                     (case first_shp files of
                        Some file \<Rightarrow> Inr file
                      | None \<Rightarrow> Inr (base_name @ ''.shp''))))))"

section \<open>A small table\<close>

text \<open>
  Two geometries stand for all: the polygon of the Pune district, and an empty geometry
  (a null shape of the shapefile).
\<close>

datatype geom = Pune_polygon | Empty_geometry

text \<open>
  One record, Pune in Maharashtra, whose only category value is in \<^verbatim>\<open>Adaptation\<close>; the
  other three category columns hold \<^verbatim>\<open>None\<close>.
\<close>

definition pune_row :: "geom row" where
  "pune_row =
     \<lparr>attrs = (\<lambda>c. if c = ''NAME_1'' then Str ''Maharashtra''
                   else if c = ''NAME_2'' then Str ''Pune''
                   else if c = ''Adaptation'' then Str ''Highly Suitable (3)''
                   else PyNone),
      geometry = Pune_polygon\<rparr>"

definition pune_gdf :: "geom frame" where
  "pune_gdf =
     \<lparr>columns = [''NAME_1'', ''NAME_2'', ''Adaptation'', ''Mitigation'', ''Replacment'',
                 ''General_SI'', ''geometry''],
      rows = [pune_row]\<rparr>"

text \<open>
  A record of Maharashtra whose district name is the text \<^verbatim>\<open>nan\<close>, and a table that has
  neither \<^verbatim>\<open>NAME_1\<close> nor \<^verbatim>\<open>NAME_2\<close>.
\<close>

definition nan_row :: "geom row" where
  "nan_row =
     \<lparr>attrs = (\<lambda>c. if c = ''NAME_1'' then Str ''Maharashtra''
                   else if c = ''NAME_2'' then Str ''nan''
                   else PyNone),
      geometry = Pune_polygon\<rparr>"

definition nan_gdf :: "geom frame" where
  "nan_gdf =
     \<lparr>columns = [''NAME_1'', ''NAME_2'', ''Adaptation'', ''Mitigation'', ''Replacment'',
                 ''General_SI'', ''geometry''],
      rows = [nan_row]\<rparr>"



definition null_gdf :: "geom frame" where
  "null_gdf = pune_gdf\<lparr>rows := [pune_row\<lparr>geometry := Empty_geometry\<rparr>]\<rparr>"


text \<open>The Pune record with the text \<^verbatim>\<open>nan\<close> as its \<^verbatim>\<open>Adaptation\<close> label.\<close>

definition nan_label_row :: "geom row" where
  "nan_label_row =
     \<lparr>attrs = (\<lambda>c. if c = ''NAME_1'' then Str ''Maharashtra''
                   else if c = ''NAME_2'' then Str ''Pune''
                   else if c = ''Adaptation'' then Str ''nan''
                   else PyNone),
      geometry = Pune_polygon\<rparr>"

definition nan_label_gdf :: "geom frame" where
  "nan_label_gdf =
     \<lparr>columns = [''NAME_1'', ''NAME_2'', ''Adaptation'', ''Mitigation'', ''Replacment'',
                 ''General_SI'', ''geometry''],
      rows = [nan_label_row]\<rparr>"

text \<open>A table with the expected columns and no record.\<close>

definition empty_gdf :: "geom frame" where
  "empty_gdf =
     \<lparr>columns = [''NAME_1'', ''NAME_2'', ''Adaptation'', ''Mitigation'', ''Replacment'',
                 ''General_SI'', ''geometry''],
      rows = []\<rparr>"

section \<open>Library behaviours and file systems\<close>

text \<open>A library whose every call raises.\<close>

definition failing_lib :: "geom library" where
  "failing_lib =
     \<lparr>centroid = (\<lambda>gs. Inl (LibraryError ''centroid'')),
      series_mean = (\<lambda>xs. Inl (LibraryError ''mean'')),
      total_bounds = (\<lambda>gs. Inl (LibraryError ''total_bounds'')),
      float_sub = (\<lambda>a b. FNaN),
      render = (\<lambda>m. Inl (LibraryError ''render''))\<rparr>"

text \<open>
  What the map library does with a map: \<^verbatim>\<open>folium.Map\<close> raises a \<^verbatim>\<open>ValueError\<close> for a
  location that holds not-a-number; the tooltip raises an \<^verbatim>\<open>AssertionError\<close>, here carrying
  the name of the first offending field, when one of its fields is not a property key of
  the layer's features; otherwise the map is drawn.
\<close>

definition folium_render :: "map_view \<Rightarrow> error + unit" where
  "folium_render m =
     (if fst (location m) = FNaN \<or> snd (location m) = FNaN
      then Inl (ValueError ''Location values cannot contain NaNs.'')
      else
        (case filter (\<lambda>f. f \<notin> set (layer_keys m)) (tooltip_fields m) of
           [] \<Rightarrow> Inr ()
         | f # _ \<Rightarrow> Inl (AssertionError f)))"

text \<open>
  The answers of the libraries on the one-record tables above, as a table of their own.
  The centroid of the Pune polygon is \<open>(73.85, 18.52)\<close> and its bounds are \<open>73 .. 74.5\<close> by
  \<open>18 .. 19.5\<close>; an empty geometry has not-a-number for every coordinate, and nothing
  raises on it. The mean of a one-element series is its element, and the two differences
  \<open>19.5 - 18\<close> and \<open>74.5 - 73\<close> are \<open>1.5\<close> exactly, as a difference with not-a-number is
  not-a-number. No other series or difference arises on these tables; for those the entry
  is not-a-number and no theorem reads it.
\<close>

definition geo_lib :: "geom library" where
  "geo_lib =
     \<lparr>centroid =
        (\<lambda>gs. Inr (map (\<lambda>g. case g of
                                Pune_polygon \<Rightarrow> (Fin (7385 / 100), Fin (1852 / 100))
                              | Empty_geometry \<Rightarrow> (FNaN, FNaN)) gs)),
      series_mean = (\<lambda>xs. case xs of [x] \<Rightarrow> Inr x | _ \<Rightarrow> Inr FNaN),
      total_bounds =
        (\<lambda>gs. if Pune_polygon \<in> set gs
               then Inr (Fin 73, Fin 18, Fin (149 / 2), Fin (39 / 2))
               else Inr (FNaN, FNaN, FNaN, FNaN)),
      float_sub =
        (\<lambda>a b. if (a = Fin (39 / 2) \<and> b = Fin 18) \<or> (a = Fin (149 / 2) \<and> b = Fin 73)
                then Fin (3 / 2) else FNaN),
      render = folium_render\<rparr>"

text \<open>
  The application in \<^verbatim>\<open>/srv/app\<close>, with the dataset both beside the script and in the parent
  directory, and a second shapefile listed before it; and a working directory that may be
  entered but not read, with no dataset beside the script or above it.
\<close>

definition app_fs :: filesystem where
  "app_fs =
     \<lparr>path_exists = (\<lambda>p. p = ''Solar_Suitability_layer.shp''
                          \<or> p = ''/srv/Solar_Suitability_layer.shp''),
      getcwd = Inr ''/srv/app'',
      listdir = Inr [''app.py'', ''districts.shp'', ''Solar_Suitability_layer.shp'']\<rparr>"

definition unreadable_fs :: filesystem where
  "unreadable_fs =
     \<lparr>path_exists = (\<lambda>p. False),
      getcwd = Inr ''/srv/app'',
      listdir = Inl (OSError ''Permission denied'')\<rparr>"

section \<open>Strings: the recursive tests against their declarative meaning\<close>

lemma startswith_prefix: "startswith s p \<longleftrightarrow> prefix p s"
  by (induction s p rule: startswith.induct) auto

lemma py_in_sublist: "py_in p s \<longleftrightarrow> sublist p s"
proof (induction s)
  case Nil
  show ?case by auto
next
  case (Cons c cs)
  show ?case
    by (simp add: Cons.IH startswith_prefix sublist_Cons_right)
qed

lemma endswith_suffix: "endswith s suf \<longleftrightarrow> suffix suf s"
proof
  assume "endswith s suf"
  then have "drop (length s - length suf) s = suf"
    by (simp add: endswith_def)
  then have "s = take (length s - length suf) s @ suf"
    by (metis append_take_drop_id)
  then show "suffix suf s"
    by (metis suffixI)
next
  assume "suffix suf s"
  then obtain zs where "s = zs @ suf"
    by (auto simp: suffix_def)
  then show "endswith s suf"
    by (simp add: endswith_def)
qed

section \<open>Distinct values\<close>

lemma set_unique_from: "set (unique_from seen xs) = set xs - set seen"
  by (induction xs arbitrary: seen) auto

lemma set_unique: "set (unique xs) = set xs"
  by (simp add: unique_def set_unique_from)

lemma distinct_unique_from: "distinct (unique_from seen xs)"
  by (induction xs arbitrary: seen) (auto simp: set_unique_from)

lemma distinct_unique: "distinct (unique xs)"
  by (simp add: unique_def distinct_unique_from)

section \<open>Colours\<close>

text \<open>The fill colour of a feature is the legend's colour of its value, grey without one.\<close>

lemma fill_legend:
  "fillColor (style_function k q) =
     (case q k of
        None \<Rightarrow> ''#808080''
      | Some PyNone \<Rightarrow> ''#808080''
      | Some v \<Rightarrow> legend_color v)"
  by (simp add: style_function_def mk_style_def legend_color_def Let_def
      split: option.splits cell.splits)

lemma legend_color_text:
  "legend_color (Str t) =
     (if sublist ''Highly Suitable'' t then ''#4dff4d''
      else if sublist ''Moderately Suitable'' t then ''#ffeb3b''
      else ''#808080'')"
  by (simp only: legend_color_def py_in_sublist str.simps)

lemma legend_color_NaN: "legend_color NaN = ''#808080''"
  by (simp add: legend_color_def)

text \<open>
  The feature export may write a not-a-number cell as null; the style is the same either
  way.
\<close>

lemma style_NaN_as_null: "style_function c (p(c \<mapsto> NaN)) = style_function c (p(c \<mapsto> PyNone))"
  by (simp add: style_function_def)

text \<open>
  C1. The colour is a function of the label text alone. The fill colour that the style
  function gives a feature is decided by the text \<open>s\<close> of its value for the selected
  category: \<^verbatim>\<open>#4dff4d\<close> when \<open>s\<close> contains ``Highly Suitable'', otherwise \<^verbatim>\<open>#ffeb3b\<close> when it
  contains ``Moderately Suitable'', otherwise \<^verbatim>\<open>#808080\<close>; a feature without the key, or
  with a null value, gets \<^verbatim>\<open>#808080\<close>. The legend gives a label text the colour of the same
  rule. Two features carrying the same text get the same colour, whatever the other
  properties (\<open>p\<close>, \<open>p'\<close>) and whatever the category (\<open>c\<close>, \<open>c'\<close>). Containment is
  \<^const>\<open>sublist\<close>: the text is \<open>ps @ ''Highly Suitable'' @ ss\<close> for some \<open>ps\<close> and \<open>ss\<close>.
\<close>

theorem color_is_function_of_label_text:
  "fillColor (style_function selected_category props) =
     (case props selected_category of
        Some (Str s) \<Rightarrow>
          if sublist ''Highly Suitable'' s then ''#4dff4d''
          else if sublist ''Moderately Suitable'' s then ''#ffeb3b''
          else ''#808080''
      | _ \<Rightarrow> ''#808080'')
   \<and> legend_color (Str s) =
     (if sublist ''Highly Suitable'' s then ''#4dff4d''
      else if sublist ''Moderately Suitable'' s then ''#ffeb3b''
      else ''#808080'')
   \<and> fillColor (style_function c (p(c \<mapsto> Str s))) =
     fillColor (style_function c' (p'(c' \<mapsto> Str s)))"
  by (simp add: fill_legend legend_color_NaN legend_color_text split: option.splits cell.splits)

text \<open>
  C10. The legend and the style function agree. For every label text \<open>s\<close>, the colour the
  legend computes for \<open>s\<close> is the fill colour of a feature whose value for the selected
  category is \<open>s\<close>. On a table: for every row of the filtered frame whose value for the
  selected category passes the legend's guard, the legend has an entry with that value's
  text, and the entry's colour is the fill colour of the row's feature.
\<close>

theorem legend_agrees_with_style:
  "legend_color (Str s) = fillColor (style_function c (p(c \<mapsto> Str s)))
   \<and> (r \<in> set (rows f) \<and> cat \<in> set (columns f) \<and> not_missing (attrs r cat) \<longrightarrow>
        Legend_entry (fillColor (style_function cat (properties f r))) (str (attrs r cat))
          \<in> set (legend f cat))"
proof -
  have "Legend_entry (fillColor (style_function cat (properties f r))) (str (attrs r cat))
        \<in> set (legend f cat)"
    if r: "r \<in> set (rows f)" and c: "cat \<in> set (columns f)" and n: "not_missing (attrs r cat)"
  proof -
    have "attrs r cat \<in> set (filter not_missing (unique (cells f cat)))"
      using r n by (simp add: set_unique cells_def)
    moreover have "fillColor (style_function cat (properties f r)) = legend_color (attrs r cat)"
      using n c by (cases "attrs r cat") (simp_all add: not_missing_def properties_def fill_legend)
    ultimately show ?thesis
      using c by (auto simp: legend_def)
  qed
  then show ?thesis
    by (simp add: fill_legend)
qed

theorem legend_agrees_with_style_witness:
  "pune_row \<in> set (rows pune_gdf) \<and> ''Adaptation'' \<in> set (columns pune_gdf)
   \<and> not_missing (attrs pune_row ''Adaptation'')
   \<and> Legend_entry ''#4dff4d'' ''Highly Suitable (3)'' \<in> set (legend pune_gdf ''Adaptation'')"
  using legend_agrees_with_style [of "''Highly Suitable (3)''" "''Adaptation''" Map.empty
      pune_row pune_gdf "''Adaptation''"]
  by (simp add: pune_gdf_def pune_row_def not_missing_def properties_def fill_legend
      legend_color_def)

section \<open>Selectors and the region filter\<close>

lemma not_missing_iff: "not_missing v \<longleftrightarrow> (\<exists>d. v = Str d \<and> d \<noteq> ''nan'')"
  by (cases v) (simp_all add: not_missing_def)

lemma set_valid_names: "set (valid_names xs) = {d. Str d \<in> set xs \<and> d \<noteq> ''nan''}"
proof -
  have "set (valid_names xs) = str ` {v \<in> set xs. not_missing v}"
    by (simp add: valid_names_def set_unique)
  also have "{v \<in> set xs. not_missing v} = Str ` {d. Str d \<in> set xs \<and> d \<noteq> ''nan''}"
    by (auto simp: not_missing_iff)
  also have "str ` (Str ` {d. Str d \<in> set xs \<and> d \<noteq> ''nan''}) = {d. Str d \<in> set xs \<and> d \<noteq> ''nan''}"
    by (simp add: image_image)
  finally show ?thesis .
qed

lemma distinct_valid_names: "distinct (valid_names xs)"
proof -
  have "inj_on str (set (filter not_missing (unique xs)))"
    by (auto simp: inj_on_def not_missing_iff)
  then show ?thesis
    by (simp add: valid_names_def distinct_map distinct_unique)
qed

lemma select_eq_present:
  "c \<in> set (columns df) \<Longrightarrow>
     select_eq df c s = Inr (df\<lparr>rows := filter (\<lambda>r. attrs r c = Str s) (rows df)\<rparr>)"
  by (simp add: select_eq_def column_def)

lemma select_eq_absent: "c \<notin> set (columns df) \<Longrightarrow> select_eq df c s = Inl (KeyError c)"
  by (simp add: select_eq_def column_def)

lemma state_filter_rows:
  "selected_state = ''All States'' \<or> ''NAME_1'' \<in> set (columns gdf) \<Longrightarrow>
     state_filter gdf selected_state =
       Inr (gdf\<lparr>rows := filter (\<lambda>r. selected_state = ''All States''
                                     \<or> attrs r ''NAME_1'' = Str selected_state) (rows gdf)\<rparr>)"
  by (auto simp: state_filter_def select_eq_present)

text \<open>An option of the state selector other than ``All States'' comes from \<^verbatim>\<open>NAME_1\<close>.\<close>

lemma offered_state:
  "selected_state \<in> set (states gdf) \<Longrightarrow>
     selected_state = ''All States'' \<or> ''NAME_1'' \<in> set (columns gdf)"
  by (auto simp: states_def split: if_splits)

lemma offered_district:
  "district_options gdf selected_state = Inr ds \<Longrightarrow> selected_district \<in> set ds \<Longrightarrow>
     selected_district = ''All Districts'' \<or> ''NAME_2'' \<in> set (columns gdf)"
  by (auto simp: district_options_def districts_def split: sum.splits if_splits)

text \<open>
  C2. The region filter returns exactly the records that satisfy both predicates: the state
  predicate holds of every record when the selected state is ``All States'' and otherwise
  requires the record's \<^verbatim>\<open>NAME_1\<close> to be the selected string; the district predicate
  likewise with ``All Districts'' and \<^verbatim>\<open>NAME_2\<close>. The records keep their order, the columns
  are unchanged, the district predicate is applied to the frame already filtered by state,
  and the result is a frame (not an error) also when no record is left. The hypotheses say
  that a selection other than ``All'' names a column the table has; every option the
  selectors offer meets them (\<open>offered_state\<close>, \<open>offered_district\<close>).
\<close>

theorem region_filter_exact:
  assumes s: "selected_state = ''All States'' \<or> ''NAME_1'' \<in> set (columns gdf)"
    and d: "selected_district = ''All Districts'' \<or> ''NAME_2'' \<in> set (columns gdf)"
  shows "region_filter gdf selected_state selected_district =
     Inr (gdf\<lparr>rows := filter
            (\<lambda>r. (selected_state = ''All States'' \<or> attrs r ''NAME_1'' = Str selected_state)
               \<and> (selected_district = ''All Districts''
                    \<or> attrs r ''NAME_2'' = Str selected_district))
            (rows gdf)\<rparr>)
   \<and> (\<exists>by_state. state_filter gdf selected_state = Inr by_state
        \<and> rows by_state = filter (\<lambda>r. selected_state = ''All States''
                                     \<or> attrs r ''NAME_1'' = Str selected_state) (rows gdf)
        \<and> region_filter gdf selected_state selected_district =
            district_filter by_state selected_district)"
  using d by (auto simp: region_filter_def state_filter_rows [OF s] district_filter_def
      select_eq_present)

lemma sorted_valid: "sorted (sort (valid_names xs)) \<and> distinct (sort (valid_names xs))
  \<and> set (sort (valid_names xs)) = {d. Str d \<in> set xs \<and> d \<noteq> ''nan''}"
  by (simp add: distinct_valid_names set_valid_names)

lemma state_filter_columns: "state_filter gdf ss = Inr f \<Longrightarrow> columns f = columns gdf"
  by (auto simp: state_filter_def select_eq_def column_def split: if_splits)

text \<open>
  C3, as the code has it. The district selector offers ``All Districts'' followed by a
  sorted list without duplicates of the district names, other than the text \<^verbatim>\<open>nan\<close>, of the
  records whose state is the selected one (of all records under ``All States''). A table
  without \<^verbatim>\<open>NAME_2\<close> has no district names.
\<close>

theorem district_options_consistent:
  assumes s: "selected_state = ''All States'' \<or> ''NAME_1'' \<in> set (columns gdf)"
  shows "\<exists>ds. district_options gdf selected_state = Inr (''All Districts'' # ds)
     \<and> sorted ds \<and> distinct ds
     \<and> set ds = {d. d \<noteq> ''nan'' \<and> ''NAME_2'' \<in> set (columns gdf)
                   \<and> (\<exists>r \<in> set (rows gdf).
                         (selected_state = ''All States''
                            \<or> attrs r ''NAME_1'' = Str selected_state)
                         \<and> attrs r ''NAME_2'' = Str d)}"
proof (cases "''NAME_2'' \<in> set (columns gdf)")
  case False
  then show ?thesis
    by (simp add: district_options_def state_filter_rows [OF s] districts_def)
next
  case True
  let ?f = "gdf\<lparr>rows := filter (\<lambda>r. selected_state = ''All States''
                                     \<or> attrs r ''NAME_1'' = Str selected_state) (rows gdf)\<rparr>"
  let ?xs = "cells ?f ''NAME_2''"
  have opts: "district_options gdf selected_state =
      Inr (''All Districts'' # sort (valid_names ?xs))"
    using True by (auto simp: district_options_def state_filter_rows [OF s] districts_def
        column_def cells_def)
  have "{d. Str d \<in> set ?xs \<and> d \<noteq> ''nan''} =
      {d. d \<noteq> ''nan'' \<and> ''NAME_2'' \<in> set (columns gdf)
                   \<and> (\<exists>r \<in> set (rows gdf).
                         (selected_state = ''All States''
                            \<or> attrs r ''NAME_1'' = Str selected_state)
                         \<and> attrs r ''NAME_2'' = Str d)}"
    using True by (auto simp: cells_def image_iff)
  then show ?thesis
    using opts sorted_valid [of ?xs] by simp
qed

theorem region_filter_exact_witness:
  "(''Maharashtra'' = ''All States'' \<or> ''NAME_1'' \<in> set (columns pune_gdf))
   \<and> (''Pune'' = ''All Districts'' \<or> ''NAME_2'' \<in> set (columns pune_gdf))
   \<and> region_filter pune_gdf ''Maharashtra'' ''Pune'' = Inr pune_gdf
   \<and> region_filter pune_gdf ''Goa'' ''Pune'' = Inr (pune_gdf\<lparr>rows := []\<rparr>)"
  using region_filter_exact [where gdf = pune_gdf and selected_state = "''Maharashtra''"
      and selected_district = "''Pune''"]
    region_filter_exact [where gdf = pune_gdf and selected_state = "''Goa''"
      and selected_district = "''Pune''"]
  by (simp add: pune_gdf_def pune_row_def)

theorem district_options_consistent_witness:
  "(''Maharashtra'' = ''All States'' \<or> ''NAME_1'' \<in> set (columns pune_gdf))
   \<and> district_options pune_gdf ''Maharashtra'' = Inr [''All Districts'', ''Pune'']
   \<and> district_options pune_gdf ''Goa'' = Inr [''All Districts'']"
proof -
  have h: "s = ''All States'' \<or> ''NAME_1'' \<in> set (columns pune_gdf)" for s
    by (simp add: pune_gdf_def)
  have pune: "{d. d \<noteq> ''nan'' \<and> ''NAME_2'' \<in> set (columns pune_gdf)
                   \<and> (\<exists>r \<in> set (rows pune_gdf).
                         (''Maharashtra'' = ''All States''
                            \<or> attrs r ''NAME_1'' = Str ''Maharashtra'')
                         \<and> attrs r ''NAME_2'' = Str d)} = {''Pune''}"
    by (auto simp: pune_gdf_def pune_row_def)
  have goa: "{d. d \<noteq> ''nan'' \<and> ''NAME_2'' \<in> set (columns pune_gdf)
                   \<and> (\<exists>r \<in> set (rows pune_gdf).
                         (''Goa'' = ''All States'' \<or> attrs r ''NAME_1'' = Str ''Goa'')
                         \<and> attrs r ''NAME_2'' = Str d)} = {}"
    by (auto simp: pune_gdf_def pune_row_def)
  obtain ds where ds: "district_options pune_gdf ''Maharashtra'' = Inr (''All Districts'' # ds)"
    "distinct ds" "set ds = {''Pune''}"
    using district_options_consistent [OF h, of "''Maharashtra''"] unfolding pune by blast
  have "ds = [''Pune'']"
  proof (cases ds)
    case Nil
    with ds(3) show ?thesis by simp
  next
    case (Cons a as)
    with ds(3) have a: "a = ''Pune''" and sub: "set as \<subseteq> {''Pune''}" by auto
    from Cons ds(2) a have "''Pune'' \<notin> set as" by simp
    with sub have "as = []" by (cases as) auto
    with Cons a show ?thesis by simp
  qed
  moreover obtain es where "district_options pune_gdf ''Goa'' = Inr (''All Districts'' # es)"
    "set es = {}"
    using district_options_consistent [OF h, of "''Goa''"] unfolding goa by blast
  ultimately show ?thesis
    using ds(1) h [of "''Maharashtra''"] by simp
qed

text \<open>
  C3 as stated fails: a record of Maharashtra whose district name is the text \<^verbatim>\<open>nan\<close> is
  not null, yet the guard \<^verbatim>\<open>str(d) != "nan"\<close> drops its name from the options.
\<close>

theorem district_options_counterexample:
  "nan_row \<in> set (rows nan_gdf)
   \<and> attrs nan_row ''NAME_1'' = Str ''Maharashtra''
   \<and> attrs nan_row ''NAME_2'' = Str ''nan''
   \<and> ''Maharashtra'' \<in> set (states nan_gdf)
   \<and> district_options nan_gdf ''Maharashtra'' = Inr [''All Districts'']
   \<and> district_options nan_gdf ''All States'' = Inr [''All Districts'']"
  by (simp add: nan_gdf_def nan_row_def district_options_def state_filter_def select_eq_def
      column_def cells_def districts_def valid_names_def unique_def not_missing_def states_def)

section \<open>Zoom\<close>

text \<open>
  C4. The zoom level is a function of the two spans of the bounding box: 6 when either span
  exceeds 3 degrees, otherwise 9 when either span is below 1 degree, otherwise 7. A span of
  3.5 degrees of latitude gives 6 whatever the other span; a box of 0.5 degrees gives 9; a
  box of 2 degrees gives 7; spans that are not numbers (the bounds of geometries that are
  all empty) exceed nothing and are below nothing, and give 7. For a subset with bounds
  \<open>(minx, miny, maxx, maxy)\<close> the spans are the float differences \<open>maxy - miny\<close> and
  \<open>maxx - minx\<close>, as the interpreter computes them, and the rule applies to those.
\<close>

theorem zoom_heuristic:
  "zoom_level (Fin lat_span) (Fin lon_span) =
     (if lat_span > 3 \<or> lon_span > 3 then 6
      else if lat_span < 1 \<or> lon_span < 1 then 9
      else 7)
   \<and> zoom_level (Fin (7 / 2)) (Fin lon_span) = 6
   \<and> zoom_level (Fin (1 / 2)) (Fin (1 / 2)) = 9
   \<and> zoom_level (Fin 2) (Fin 2) = 7
   \<and> zoom_level FNaN FNaN = 7
   \<and> (total_bounds lib (map geometry (rows filtered_gdf)) = Inr (minx, miny, maxx, maxy) \<longrightarrow>
        zoom_of lib filtered_gdf =
          Inr (zoom_level (float_sub lib maxy miny) (float_sub lib maxx minx)))
   \<and> (total_bounds lib (map geometry (rows filtered_gdf)) = Inr (minx, miny, maxx, maxy)
        \<and> float_sub lib maxy miny = Fin lat_span \<and> float_sub lib maxx minx = Fin lon_span \<longrightarrow>
        zoom_of lib filtered_gdf =
          Inr (if lat_span > 3 \<or> lon_span > 3 then 6
               else if lat_span < 1 \<or> lon_span < 1 then 9
               else 7))"
  by (simp add: zoom_level_def zoom_of_def)

theorem zoom_heuristic_witness:
  "total_bounds geo_lib (map geometry (rows pune_gdf)) =
     Inr (Fin 73, Fin 18, Fin (149 / 2), Fin (39 / 2))
   \<and> float_sub geo_lib (Fin (39 / 2)) (Fin 18) = Fin (3 / 2)
   \<and> float_sub geo_lib (Fin (149 / 2)) (Fin 73) = Fin (3 / 2)
   \<and> zoom_of geo_lib pune_gdf = Inr 7"
  using zoom_heuristic [where lib = geo_lib and filtered_gdf = pune_gdf and minx = "Fin 73"
      and miny = "Fin 18" and maxx = "Fin (149 / 2)" and maxy = "Fin (39 / 2)"
      and lat_span = "3 / 2" and lon_span = "3 / 2"]
  by (simp add: geo_lib_def pune_gdf_def pune_row_def)

section \<open>The centre of the map\<close>

text \<open>
  The handler: an exception of the centroid computation gives the default centre; when the
  centroids and both means return, the centre is the pair of the means, whatever they are.
\<close>

lemma center_cases:
  "(centroid lib (map geometry (rows filtered_gdf)) = Inl e \<longrightarrow>
      center lib filtered_gdf = default_center)
   \<and> (centroid lib (map geometry (rows filtered_gdf)) = Inr points
        \<and> series_mean lib (map snd points) = Inr center_y
        \<and> series_mean lib (map fst points) = Inr center_x \<longrightarrow>
      center lib filtered_gdf = (center_y, center_x))"
  by (simp add: center_def)

lemma geo_center_null: "center geo_lib null_gdf = (FNaN, FNaN)"
  by (simp add: center_def geo_lib_def null_gdf_def)

lemma geo_zoom_null: "zoom_of geo_lib null_gdf = Inr 7"
  by (simp add: zoom_of_def zoom_level_def geo_lib_def null_gdf_def)

lemma geo_compose_null:
  "compose geo_lib null_gdf ''Adaptation'' =
     Inl (ValueError ''Location values cannot contain NaNs.'')"
proof -
  have r: "render geo_lib = folium_render"
    by (simp add: geo_lib_def)
  show ?thesis
    by (simp add: compose_def geo_center_null geo_zoom_null categories_def Let_def r
        folium_render_def)
qed

text \<open>
  C6, at a subset whose only geometry is empty. Nothing raises inside the \<^verbatim>\<open>try\<close> block:
  the centroid has not-a-number coordinates and so has their mean. The centre is therefore
  not the default centre but not-a-number, the map constructor rejects it, and its error
  leaves the Map Composer, the map column and the page.
\<close>

theorem degenerate_geometry_not_caught:
  "\<not> df_empty null_gdf
   \<and> centroid geo_lib (map geometry (rows null_gdf)) = Inr [(FNaN, FNaN)]
   \<and> center geo_lib null_gdf = (FNaN, FNaN)
   \<and> center geo_lib null_gdf \<noteq> default_center
   \<and> zoom_of geo_lib null_gdf = Inr 7
   \<and> compose geo_lib null_gdf ''Adaptation'' =
       Inl (ValueError ''Location values cannot contain NaNs.'')
   \<and> map_column geo_lib null_gdf ''All Districts'' ''Adaptation'' =
       Inl (ValueError ''Location values cannot contain NaNs.'')
   \<and> page geo_lib null_gdf ''All States'' ''All Districts'' ''Adaptation'' =
       Inl (ValueError ''Location values cannot contain NaNs.'')"
proof -
  have e: "\<not> df_empty null_gdf"
    by (simp add: df_empty_def null_gdf_def pune_gdf_def)
  have c: "centroid geo_lib (map geometry (rows null_gdf)) = Inr [(FNaN, FNaN)]"
    by (simp add: geo_lib_def null_gdf_def)
  have d: "center geo_lib null_gdf \<noteq> default_center"
    by (simp add: geo_center_null default_center_def)
  have m: "map_column geo_lib null_gdf ''All Districts'' ''Adaptation'' =
       Inl (ValueError ''Location values cannot contain NaNs.'')"
    by (simp add: map_column_def e geo_compose_null)
  have "\<exists>shown. controls null_gdf ''All States'' ''All Districts'' ''Adaptation'' =
       Inr (shown, null_gdf)"
    by (simp add: controls_def state_filter_def district_filter_def districts_def column_def
        null_gdf_def pune_gdf_def)
  then have "page geo_lib null_gdf ''All States'' ''All Districts'' ''Adaptation'' =
       Inl (ValueError ''Location values cannot contain NaNs.'')"
    by (auto simp: page_def m)
  then show ?thesis
    using e c d m geo_center_null geo_zoom_null geo_compose_null by simp
qed

section \<open>The empty subset\<close>

lemma region_filter_controls:
  assumes "region_filter gdf selected_state selected_district = Inr filtered_gdf"
  shows "\<exists>ds. district_options gdf selected_state = Inr ds
     \<and> controls gdf selected_state selected_district selected_category =
         Inr ([Header ''Selection Controls'',
               Subheader ''Select State:'', Selectbox (states gdf),
               Subheader ''Select District:'', Selectbox ds,
               Subheader ''Select Category:'', Selectbox (map fst categories),
               Header ''Legend'']
              @ legend filtered_gdf selected_category, filtered_gdf)"
proof -
  from assms obtain by_state where s: "state_filter gdf selected_state = Inr by_state"
    and d: "district_filter by_state selected_district = Inr filtered_gdf"
    by (auto simp: region_filter_def split: sum.splits)
  have "columns by_state = columns gdf"
    using s by (auto simp: state_filter_def select_eq_def column_def split: if_splits)
  then have "\<exists>ds. districts gdf by_state selected_state = Inr ds"
    by (cases "selected_state = ''All States''") (simp_all add: districts_def column_def)
  then obtain ds where ds: "districts gdf by_state selected_state = Inr ds"
    by blast
  show ?thesis
    using s d ds by (simp add: district_options_def controls_def)
qed

lemma legend_empty: "df_empty f \<Longrightarrow> legend f cat = []"
  by (auto simp: df_empty_def legend_def cells_def unique_def)

text \<open>
  C5. When the region filter returns an empty subset, the map column consists of its header
  and the notice ``No data available for the selected filters.'', for every library, also
  one whose every call raises: no centre, bounds or zoom is computed. The whole page is then
  the controls (with an empty legend) followed by that notice, and no error.
\<close>

theorem empty_subset_no_data:
  assumes "region_filter gdf selected_state selected_district = Inr filtered_gdf"
    and "df_empty filtered_gdf"
  shows "map_column lib filtered_gdf selected_district selected_category =
       Inr [Header ''Solar Suitability Map'',
            Warning ''No data available for the selected filters.'']
   \<and> (\<exists>ds. district_options gdf selected_state = Inr ds
        \<and> page lib gdf selected_state selected_district selected_category =
            Inr [Header ''Selection Controls'',
                 Subheader ''Select State:'', Selectbox (states gdf),
                 Subheader ''Select District:'', Selectbox ds,
                 Subheader ''Select Category:'', Selectbox (map fst categories),
                 Header ''Legend'',
                 Header ''Solar Suitability Map'',
                 Warning ''No data available for the selected filters.''])"
proof -
  have m: "map_column lib filtered_gdf selected_district selected_category =
       Inr [Header ''Solar Suitability Map'',
            Warning ''No data available for the selected filters.'']"
    using assms(2) by (simp add: map_column_def)
  obtain ds where "district_options gdf selected_state = Inr ds"
    and "controls gdf selected_state selected_district selected_category =
         Inr ([Header ''Selection Controls'',
               Subheader ''Select State:'', Selectbox (states gdf),
               Subheader ''Select District:'', Selectbox ds,
               Subheader ''Select Category:'', Selectbox (map fst categories),
               Header ''Legend'']
              @ legend filtered_gdf selected_category, filtered_gdf)"
    using region_filter_controls [OF assms(1)] by blast
  then show ?thesis
    using m by (simp add: page_def legend_empty [OF assms(2)])
qed

theorem empty_subset_no_data_witness:
  "region_filter empty_gdf ''All States'' ''All Districts'' = Inr empty_gdf
   \<and> df_empty empty_gdf
   \<and> centroid failing_lib [] = Inl (LibraryError ''centroid'')
   \<and> total_bounds failing_lib [] = Inl (LibraryError ''total_bounds'')
   \<and> map_column failing_lib empty_gdf ''All Districts'' ''Adaptation'' =
       Inr [Header ''Solar Suitability Map'',
            Warning ''No data available for the selected filters.'']"
proof -
  have r: "region_filter empty_gdf ''All States'' ''All Districts'' = Inr empty_gdf"
    by (simp add: region_filter_def state_filter_def district_filter_def)
  have e: "df_empty empty_gdf"
    by (simp add: df_empty_def empty_gdf_def)
  show ?thesis
    using empty_subset_no_data [OF r e, of failing_lib "''Adaptation''"] r e
    by (simp add: failing_lib_def)
qed

section \<open>Locating the dataset: order of the search\<close>

lemma first_shp_hit:
  "suffix ''.shp'' hit \<Longrightarrow> \<forall>f \<in> set before. \<not> suffix ''.shp'' f \<Longrightarrow>
     first_shp (before @ hit # after) = Some hit"
  by (induction before) (simp_all add: endswith_suffix)

lemma first_shp_miss: "\<forall>f \<in> set files. \<not> suffix ''.shp'' f \<Longrightarrow> first_shp files = None"
  by (induction files) (simp_all add: endswith_suffix)

lemma dropWhile_no_sep:
  "CHR ''/'' \<notin> set leaf \<Longrightarrow>
     dropWhile (\<lambda>c. c \<noteq> CHR ''/'') (rev leaf @ CHR ''/'' # rest) = CHR ''/'' # rest"
  by (induction leaf rule: rev_induct) auto

lemma head_of_path:
  "CHR ''/'' \<notin> set leaf \<Longrightarrow>
     rev (dropWhile (\<lambda>c. c \<noteq> CHR ''/'') (rev (parent @ CHR ''/'' # leaf))) = parent @ [CHR ''/'']"
  using dropWhile_no_sep [of leaf "rev parent"] by simp

lemma dirname_parent:
  assumes "CHR ''/'' \<notin> set leaf" and "parent \<noteq> []" and "last parent \<noteq> CHR ''/''"
  shows "dirname (parent @ ''/'' @ leaf) = parent"
proof -
  obtain stem c where p: "parent = stem @ [c]"
    using assms(2) by (cases parent rule: rev_cases) auto
  then have c: "c \<noteq> CHR ''/''"
    using assms(3) by simp
  have h: "rev (dropWhile (\<lambda>c. c \<noteq> CHR ''/'') (rev (parent @ ''/'' @ leaf))) = stem @ [c, CHR ''/'']"
    using head_of_path [OF assms(1), of parent] by (simp add: p)
  have n: "\<not> list_all (\<lambda>c. c = CHR ''/'') (stem @ [c, CHR ''/''])"
    using c by simp
  have s: "rev (dropWhile (\<lambda>c. c = CHR ''/'') (rev (stem @ [c, CHR ''/'']))) = stem @ [c]"
    using c by simp
  show ?thesis
    unfolding dirname_def h Let_def using n s p by simp
qed

lemma dirname_root:
  assumes "CHR ''/'' \<notin> set leaf"
  shows "dirname (''/'' @ leaf) = ''/''"
proof -
  have h: "rev (dropWhile (\<lambda>c. c \<noteq> CHR ''/'') (rev (''/'' @ leaf))) = ''/''"
    using head_of_path [OF assms, of "[]"] by simp
  show ?thesis
    unfolding dirname_def h Let_def by simp
qed

lemma join_plain:
  assumes "parent \<noteq> []" and "last parent \<noteq> CHR ''/''" and "\<not> prefix ''/'' name"
  shows "join parent name = parent @ ''/'' @ name"
proof -
  have "\<not> suffix ''/'' parent"
    using assms(1,2) by (auto simp: suffix_def)
  then show ?thesis
    using assms(1,3) by (simp add: join_def startswith_prefix endswith_suffix)
qed

lemma join_root: "\<not> prefix ''/'' name \<Longrightarrow> join ''/'' name = ''/'' @ name"
  by (simp add: join_def startswith_prefix endswith_def)

lemma prefix_sep_shp: "prefix ''/'' (base_name @ ''.shp'') \<longleftrightarrow> prefix ''/'' base_name"
  by (cases base_name) simp_all

lemma parent_path:
  assumes "CHR ''/'' \<notin> set leaf" and "parent \<noteq> []" and "last parent \<noteq> CHR ''/''"
    and "\<not> prefix ''/'' base_name"
  shows "join (dirname (parent @ ''/'' @ leaf)) (base_name @ ''.shp'') =
      parent @ ''/'' @ base_name @ ''.shp''"
proof -
  have n: "\<not> prefix ''/'' (base_name @ ''.shp'')"
    using assms(4) by (simp only: prefix_sep_shp not_False_eq_True)
  show ?thesis
    unfolding dirname_parent [OF assms(1,2,3)] by (rule join_plain [OF assms(2,3) n])
qed

lemma root_path:
  assumes "CHR ''/'' \<notin> set leaf" and "\<not> prefix ''/'' base_name"
  shows "join (dirname (''/'' @ leaf)) (base_name @ ''.shp'') = ''/'' @ base_name @ ''.shp''"
proof -
  have n: "\<not> prefix ''/'' (base_name @ ''.shp'')"
    using assms(2) by (simp only: prefix_sep_shp not_False_eq_True)
  show ?thesis
    unfolding dirname_root [OF assms(1)] by (rule join_root [OF n])
qed

text \<open>
  C7, as the code has it. The search goes in this order and returns the first hit: (a) the
  name with \<^verbatim>\<open>.shp\<close> when that path exists; (b) otherwise that name in the parent of the
  working directory when that path exists (for a working directory \<open>parent/leaf\<close> the path
  \<open>parent/name.shp\<close>, for \<open>/leaf\<close> the path \<open>/name.shp\<close>); (c) otherwise the first entry of the
  listing that ends in \<^verbatim>\<open>.shp\<close>; (d) otherwise the name with \<^verbatim>\<open>.shp\<close>, though no such file
  exists. A missing file raises nothing, and the function returns a path whenever the
  working directory can be named and listed. An error of \<^verbatim>\<open>os.getcwd()\<close>, reached when (a)
  misses, or of \<^verbatim>\<open>os.listdir('.')\<close>, reached when (a) and (b) miss, is not handled.
\<close>

theorem find_shapefile_order:
  "(path_exists fs (base_name @ ''.shp'') \<longrightarrow>
      find_shapefile fs base_name = Inr (base_name @ ''.shp''))
   \<and> (\<not> path_exists fs (base_name @ ''.shp'')
        \<and> getcwd fs = Inr (parent @ ''/'' @ leaf) \<and> CHR ''/'' \<notin> set leaf
        \<and> parent \<noteq> [] \<and> last parent \<noteq> CHR ''/'' \<and> \<not> prefix ''/'' base_name
        \<and> path_exists fs (parent @ ''/'' @ base_name @ ''.shp'') \<longrightarrow>
      find_shapefile fs base_name = Inr (parent @ ''/'' @ base_name @ ''.shp''))
   \<and> (\<not> path_exists fs (base_name @ ''.shp'')
        \<and> getcwd fs = Inr (''/'' @ leaf) \<and> CHR ''/'' \<notin> set leaf
        \<and> \<not> prefix ''/'' base_name
        \<and> path_exists fs (''/'' @ base_name @ ''.shp'') \<longrightarrow>
      find_shapefile fs base_name = Inr (''/'' @ base_name @ ''.shp''))
   \<and> (\<not> path_exists fs (base_name @ ''.shp'')
        \<and> getcwd fs = Inr cwd
        \<and> \<not> path_exists fs (join (dirname cwd) (base_name @ ''.shp''))
        \<and> listdir fs = Inr (before @ hit # after) \<and> suffix ''.shp'' hit
        \<and> (\<forall>f \<in> set before. \<not> suffix ''.shp'' f) \<longrightarrow>
      find_shapefile fs base_name = Inr hit)
   \<and> (\<not> path_exists fs (base_name @ ''.shp'')
        \<and> getcwd fs = Inr cwd
        \<and> \<not> path_exists fs (join (dirname cwd) (base_name @ ''.shp''))
        \<and> listdir fs = Inr files \<and> (\<forall>f \<in> set files. \<not> suffix ''.shp'' f) \<longrightarrow>
      find_shapefile fs base_name = Inr (base_name @ ''.shp''))
   \<and> (\<not> path_exists fs (base_name @ ''.shp'') \<and> getcwd fs = Inl e \<longrightarrow>
      find_shapefile fs base_name = Inl e)
   \<and> (\<not> path_exists fs (base_name @ ''.shp'')
        \<and> getcwd fs = Inr cwd
        \<and> \<not> path_exists fs (join (dirname cwd) (base_name @ ''.shp''))
        \<and> listdir fs = Inl e \<longrightarrow>
      find_shapefile fs base_name = Inl e)
   \<and> (getcwd fs = Inr cwd \<and> listdir fs = Inr files \<longrightarrow>
      (\<exists>path. find_shapefile fs base_name = Inr path))"
proof -
  have c1: "\<not> path_exists fs (base_name @ ''.shp'')
        \<and> getcwd fs = Inr (parent @ ''/'' @ leaf) \<and> CHR ''/'' \<notin> set leaf
        \<and> parent \<noteq> [] \<and> last parent \<noteq> CHR ''/'' \<and> \<not> prefix ''/'' base_name
        \<and> path_exists fs (parent @ ''/'' @ base_name @ ''.shp'') \<longrightarrow>
      find_shapefile fs base_name = Inr (parent @ ''/'' @ base_name @ ''.shp'')"
  proof (intro impI, elim conjE)
    assume a: "\<not> path_exists fs (base_name @ ''.shp'')"
      and g: "getcwd fs = Inr (parent @ ''/'' @ leaf)"
      and h: "CHR ''/'' \<notin> set leaf" "parent \<noteq> []" "last parent \<noteq> CHR ''/''"
        "\<not> prefix ''/'' base_name"
      and e: "path_exists fs (parent @ ''/'' @ base_name @ ''.shp'')"
    show "find_shapefile fs base_name = Inr (parent @ ''/'' @ base_name @ ''.shp'')"
      using a e g parent_path [OF h] by (simp add: find_shapefile_def Let_def)
  qed
  have c2: "\<not> path_exists fs (base_name @ ''.shp'')
        \<and> getcwd fs = Inr (''/'' @ leaf) \<and> CHR ''/'' \<notin> set leaf
        \<and> \<not> prefix ''/'' base_name
        \<and> path_exists fs (''/'' @ base_name @ ''.shp'') \<longrightarrow>
      find_shapefile fs base_name = Inr (''/'' @ base_name @ ''.shp'')"
  proof (intro impI, elim conjE)
    assume a: "\<not> path_exists fs (base_name @ ''.shp'')"
      and g: "getcwd fs = Inr (''/'' @ leaf)"
      and h: "CHR ''/'' \<notin> set leaf" "\<not> prefix ''/'' base_name"
      and e: "path_exists fs (''/'' @ base_name @ ''.shp'')"
    show "find_shapefile fs base_name = Inr (''/'' @ base_name @ ''.shp'')"
      using a e g root_path [OF h] by (simp add: find_shapefile_def Let_def)
  qed
  have rest: "(path_exists fs (base_name @ ''.shp'') \<longrightarrow>
      find_shapefile fs base_name = Inr (base_name @ ''.shp''))
   \<and> (\<not> path_exists fs (base_name @ ''.shp'')
        \<and> getcwd fs = Inr cwd
        \<and> \<not> path_exists fs (join (dirname cwd) (base_name @ ''.shp''))
        \<and> listdir fs = Inr (before @ hit # after) \<and> suffix ''.shp'' hit
        \<and> (\<forall>f \<in> set before. \<not> suffix ''.shp'' f) \<longrightarrow>
      find_shapefile fs base_name = Inr hit)
   \<and> (\<not> path_exists fs (base_name @ ''.shp'')
        \<and> getcwd fs = Inr cwd
        \<and> \<not> path_exists fs (join (dirname cwd) (base_name @ ''.shp''))
        \<and> listdir fs = Inr files \<and> (\<forall>f \<in> set files. \<not> suffix ''.shp'' f) \<longrightarrow>
      find_shapefile fs base_name = Inr (base_name @ ''.shp''))
   \<and> (\<not> path_exists fs (base_name @ ''.shp'') \<and> getcwd fs = Inl e \<longrightarrow>
      find_shapefile fs base_name = Inl e)
   \<and> (\<not> path_exists fs (base_name @ ''.shp'')
        \<and> getcwd fs = Inr cwd
        \<and> \<not> path_exists fs (join (dirname cwd) (base_name @ ''.shp''))
        \<and> listdir fs = Inl e \<longrightarrow>
      find_shapefile fs base_name = Inl e)
   \<and> (getcwd fs = Inr cwd \<and> listdir fs = Inr files \<longrightarrow>
      (\<exists>path. find_shapefile fs base_name = Inr path))"
    by (simp add: find_shapefile_def Let_def first_shp_hit first_shp_miss split: option.splits)
  show ?thesis
    apply (insert c1 c2 rest)
    apply (elim conjE)
    apply (intro conjI)
           apply assumption+
    done
qed

lemma dirname_srv_app: "dirname ''/srv/app'' = ''/srv''"
  by (simp add: dirname_def)

lemma join_srv:
  "join ''/srv'' ''Solar_Suitability_layer.shp'' = ''/srv/Solar_Suitability_layer.shp''"
  by (simp add: join_def endswith_def)

lemma not_shp_app_py: "\<not> suffix ''.shp'' ''app.py''"
  by (simp add: endswith_suffix [symmetric] endswith_def)

lemma shp_districts: "suffix ''.shp'' ''districts.shp''"
  by (simp add: endswith_suffix [symmetric] endswith_def)

theorem find_shapefile_order_witness:
  "find_shapefile app_fs ''Solar_Suitability_layer'' = Inr ''Solar_Suitability_layer.shp''
   \<and> find_shapefile (app_fs\<lparr>path_exists := (\<lambda>p. p = ''/srv/Solar_Suitability_layer.shp'')\<rparr>)
        ''Solar_Suitability_layer'' = Inr ''/srv/Solar_Suitability_layer.shp''
   \<and> find_shapefile (app_fs\<lparr>path_exists := (\<lambda>p. p = ''/Solar_Suitability_layer.shp''),
                             getcwd := Inr ''/app''\<rparr>)
        ''Solar_Suitability_layer'' = Inr ''/Solar_Suitability_layer.shp''
   \<and> find_shapefile (app_fs\<lparr>path_exists := (\<lambda>p. False)\<rparr>) ''Solar_Suitability_layer'' =
        Inr ''districts.shp''
   \<and> find_shapefile (app_fs\<lparr>path_exists := (\<lambda>p. False), listdir := Inr [''app.py'']\<rparr>)
        ''Solar_Suitability_layer'' = Inr ''Solar_Suitability_layer.shp''
   \<and> find_shapefile (app_fs\<lparr>path_exists := (\<lambda>p. False), getcwd := Inl (OSError ''No such file or directory'')\<rparr>)
        ''Solar_Suitability_layer'' = Inl (OSError ''No such file or directory'')
   \<and> find_shapefile (app_fs\<lparr>path_exists := (\<lambda>p. False), listdir := Inl (OSError ''Not a directory'')\<rparr>)
        ''Solar_Suitability_layer'' = Inl (OSError ''Not a directory'')
   \<and> (\<exists>path. find_shapefile app_fs ''Solar_Suitability_layer'' = Inr path)"
  using find_shapefile_order [where fs = app_fs and base_name = "''Solar_Suitability_layer''"
      and cwd = "''/srv/app''"
      and files = "[''app.py'', ''districts.shp'', ''Solar_Suitability_layer.shp'']"]
    find_shapefile_order [where fs = "app_fs\<lparr>path_exists := (\<lambda>p. p = ''/srv/Solar_Suitability_layer.shp'')\<rparr>"
      and base_name = "''Solar_Suitability_layer''" and parent = "''/srv''" and leaf = "''app''"]
    find_shapefile_order [where fs = "app_fs\<lparr>path_exists := (\<lambda>p. p = ''/Solar_Suitability_layer.shp''),
                             getcwd := Inr ''/app''\<rparr>"
      and base_name = "''Solar_Suitability_layer''" and leaf = "''app''"]
    find_shapefile_order [where fs = "app_fs\<lparr>path_exists := (\<lambda>p. False)\<rparr>"
      and base_name = "''Solar_Suitability_layer''" and cwd = "''/srv/app''"
      and before = "[''app.py'']"
      and hit = "''districts.shp''" and after = "[''Solar_Suitability_layer.shp'']"]
    find_shapefile_order [where fs = "app_fs\<lparr>path_exists := (\<lambda>p. False), listdir := Inr [''app.py'']\<rparr>"
      and base_name = "''Solar_Suitability_layer''" and cwd = "''/srv/app''"
      and files = "[''app.py'']"]
    find_shapefile_order [where fs = "app_fs\<lparr>path_exists := (\<lambda>p. False), getcwd := Inl (OSError ''No such file or directory'')\<rparr>"
      and base_name = "''Solar_Suitability_layer''" and e = "OSError ''No such file or directory''"]
    find_shapefile_order [where fs = "app_fs\<lparr>path_exists := (\<lambda>p. False), listdir := Inl (OSError ''Not a directory'')\<rparr>"
      and base_name = "''Solar_Suitability_layer''" and cwd = "''/srv/app''"
      and e = "OSError ''Not a directory''"]
    not_shp_app_py shp_districts
  by (simp add: app_fs_def)

text \<open>
  C7 as stated fails: in a working directory that may not be listed, with no dataset
  beside the script or above it, \<^verbatim>\<open>find_shapefile\<close> ends in the error of \<^verbatim>\<open>os.listdir\<close>.
\<close>

theorem find_shapefile_counterexample:
  "\<not> path_exists unreadable_fs ''Solar_Suitability_layer.shp''
   \<and> getcwd unreadable_fs = Inr ''/srv/app''
   \<and> \<not> path_exists unreadable_fs ''/srv/Solar_Suitability_layer.shp''
   \<and> listdir unreadable_fs = Inl (OSError ''Permission denied'')
   \<and> find_shapefile unreadable_fs ''Solar_Suitability_layer'' = Inl (OSError ''Permission denied'')"
  by (simp add: unreadable_fs_def find_shapefile_def)

section \<open>District details\<close>

lemma detail_lines_filter:
  "detail_lines cols district_data =
     map (\<lambda>(category, display_name). Write (''**'' @ display_name @ '':** '' @ str (district_data category)))
       (filter (\<lambda>(category, display_name). category \<in> set cols \<and> not_missing (district_data category))
          categories)"
  by (simp add: detail_lines_def categories_def Let_def)

lemma not_missing_cases:
  "not_missing v \<longleftrightarrow> v \<noteq> PyNone \<and> v \<noteq> NaN \<and> v \<noteq> Str ''nan''"
  by (cases v) (simp_all add: not_missing_def)

text \<open>
  C9, as the code has it. With a specific district selected and a non-empty filtered frame,
  the detail panel reads the first record and writes, in the order Adaptation, Mitigation,
  Replacement, General SI, one line \<^verbatim>\<open>**display name:** value\<close> for each category whose column
  is present and whose value is neither null nor not-a-number nor the text \<^verbatim>\<open>nan\<close>; the
  column \<^verbatim>\<open>Replacment\<close> is shown as ``Replacement''. On the page the panel follows the map:
  when the map is composed without error, the map column ends with the panel's lines.
\<close>

theorem detail_panel_first_record:
  assumes "selected_district \<noteq> ''All Districts''" and "rows filtered_gdf = r # others"
  shows "detail_panel filtered_gdf selected_district =
      Inr (Subheader (''Details for '' @ selected_district) #
           map (\<lambda>(category, display_name).
                  Write (''**'' @ display_name @ '':** '' @ str (attrs r category)))
             (filter (\<lambda>(category, display_name).
                        category \<in> set (columns filtered_gdf)
                        \<and> attrs r category \<noteq> PyNone \<and> attrs r category \<noteq> NaN
                        \<and> attrs r category \<noteq> Str ''nan'')
                [(''Adaptation'', ''Adaptation''), (''Mitigation'', ''Mitigation''),
                 (''Replacment'', ''Replacement''), (''General_SI'', ''General SI'')]))
   \<and> (compose lib filtered_gdf selected_category = Inr shown \<and> columns filtered_gdf \<noteq> [] \<longrightarrow>
        (\<exists>details. detail_panel filtered_gdf selected_district = Inr details
           \<and> map_column lib filtered_gdf selected_district selected_category =
               Inr (Header ''Solar Suitability Map'' # shown @ details)))"
  using assms
  by (simp add: detail_panel_def detail_lines_filter not_missing_cases categories_def
      map_column_def df_empty_def)

theorem detail_panel_first_record_witness:
  "''Pune'' \<noteq> ''All Districts'' \<and> rows pune_gdf = pune_row # []
   \<and> detail_panel pune_gdf ''Pune'' =
       Inr [Subheader ''Details for Pune'', Write ''**Adaptation:** Highly Suitable (3)'']
   \<and> region_filter pune_gdf ''Maharashtra'' ''Pune'' = Inr pune_gdf
   \<and> (\<exists>m. map_column geo_lib pune_gdf ''Pune'' ''Adaptation'' =
         Inr [Header ''Solar Suitability Map'', Folium_map m,
              Subheader ''Details for Pune'', Write ''**Adaptation:** Highly Suitable (3)''])"
proof -
  have d: "''Pune'' \<noteq> ''All Districts''"
    by simp
  have r: "rows pune_gdf = pune_row # []"
    by (simp add: pune_gdf_def)
  have f: "region_filter pune_gdf ''Maharashtra'' ''Pune'' = Inr pune_gdf"
    by (simp add: region_filter_def state_filter_def district_filter_def select_eq_def
        column_def pune_gdf_def pune_row_def)
  have "\<exists>m. compose geo_lib pune_gdf ''Adaptation'' = Inr [Folium_map m]"
    by (simp add: compose_def center_def zoom_of_def zoom_level_def categories_def Let_def
        geo_lib_def folium_render_def pune_gdf_def pune_row_def)
  then obtain m where m: "compose geo_lib pune_gdf ''Adaptation'' = Inr [Folium_map m]"
    by blast
  have c: "columns pune_gdf \<noteq> []"
    by (simp add: pune_gdf_def)
  have p: "detail_panel pune_gdf ''Pune'' =
       Inr [Subheader ''Details for Pune'', Write ''**Adaptation:** Highly Suitable (3)'']"
    using detail_panel_first_record [OF d r, of geo_lib "''Adaptation''" "[Folium_map m]"]
    by (simp add: pune_gdf_def pune_row_def)
  have "map_column geo_lib pune_gdf ''Pune'' ''Adaptation'' =
         Inr [Header ''Solar Suitability Map'', Folium_map m,
              Subheader ''Details for Pune'', Write ''**Adaptation:** Highly Suitable (3)'']"
    using detail_panel_first_record [OF d r, of geo_lib "''Adaptation''" "[Folium_map m]"] m c p
    by simp
  then show ?thesis
    using d r f p by blast
qed

text \<open>
  C9 as stated fails: for the record of Pune whose \<^verbatim>\<open>Adaptation\<close> label is the text \<^verbatim>\<open>nan\<close>,
  present and not null, the panel writes no line for Adaptation.
\<close>

theorem detail_panel_counterexample:
  "region_filter nan_label_gdf ''Maharashtra'' ''Pune'' = Inr nan_label_gdf
   \<and> rows nan_label_gdf = [nan_label_row]
   \<and> ''Adaptation'' \<in> set (columns nan_label_gdf)
   \<and> attrs nan_label_row ''Adaptation'' = Str ''nan''
   \<and> detail_panel nan_label_gdf ''Pune'' = Inr [Subheader ''Details for Pune'']"
  by (simp add: region_filter_def state_filter_def district_filter_def select_eq_def
      column_def nan_label_gdf_def nan_label_row_def detail_panel_def detail_lines_def
      categories_def not_missing_def)

section \<open>Missing columns\<close>






end
